theory Spec2Isabelle
  imports Complex_Main "HOL-Library.Sublist" "HOL-Library.Word"
begin

section \<open>RegAllocRunner: collecting register-allocation training data\<close>

text \<open>
  A shallow embedding of \<^verbatim>\<open>RegAllocRunner._compile_fn\<close>
  (\<^verbatim>\<open>compiler_opt/rl/regalloc/regalloc_runner.py\<close>). The method creates a temporary
  directory, checks the number of input paths, builds the compiler's argument vector,
  runs the compiler, reads the log it wrote and turns every entry of the log into a pair
  of a trace and a reward, removing the directory on the way out.
\<close>

subsection \<open>Protocol-buffer data\<close>

text \<open>
  A \<^verbatim>\<open>tf.train.Feature\<close> is a oneof of three lists, or not set at all. Reading
  \<^verbatim>\<open>.float_list.value\<close> of a feature of another kind gives the empty default list.
  The floats are only copied by the runner, never computed with; they are reals here.
\<close>

datatype feature =
    BytesList "string list"
  | FloatList "real list"
  | Int64List "64 word list"
  | KindNotSet

fun float_list_value :: "feature \<Rightarrow> real list" where
  "float_list_value (FloatList vs) = vs"
| "float_list_value _ = []"

text \<open>
  A \<^verbatim>\<open>SequenceExample\<close> has a context and an optional \<^verbatim>\<open>feature_lists\<close>
  submessage (\<^verbatim>\<open>HasField('feature_lists')\<close> is \<open>feature_lists e \<noteq> None\<close>), whose
  \<^verbatim>\<open>feature_list\<close> maps a name to a repeated \<^verbatim>\<open>Feature\<close>.
\<close>

record sequence_example =
  context_map :: "string \<rightharpoonup> feature"
  feature_lists :: "(string \<rightharpoonup> feature list) option"

subsection \<open>Errors, effects and outcomes\<close>

text \<open>
  The exceptions that can leave the method: an \<^verbatim>\<open>OSError\<close> of the file system, the
  three failures of the compiler process, the decoding errors of the two parsers and of
  \<^verbatim>\<open>base64.b64decode\<close>, the \<^verbatim>\<open>IndexError\<close> of an index into an empty repeated
  field, and whatever else a collaborator raises.
\<close>

datatype error =
    OSError
  | CalledProcessError
  | ProcessKilledError
  | TimeoutExpired
  | DecodeError
  | BinasciiError
  | IndexError
  | OtherError string

text \<open>
  The effects of a run, oldest first. \<open>Rmtree d r\<close> is a call of
  \<^verbatim>\<open>tf.io.gfile.rmtree\<close> on \<open>d\<close> with its result: \<open>None\<close> when the directory
  was removed, the exception raised otherwise.
\<close>

datatype event =
    Mkdtemp string
  | StartProcess "string list"
  | OpenLog string
  | Rmtree string "error option"

type_synonym result_map = "string \<rightharpoonup> (sequence_example option \<times> real)"

text \<open>
  A call either returns its dictionary, or raises, or never comes back: where
  \<^verbatim>\<open>logging.fatal\<close> aborts the process, neither a value nor an exception reaches
  the caller and no \<^verbatim>\<open>finally\<close> block runs.
\<close>

datatype outcome =
    Returned result_map
  | Raised error
  | Fatal string

text \<open>
  The directories that exist after a sequence of effects. A call of
  \<^verbatim>\<open>rmtree\<close> that raised leaves the directory where it is.
\<close>

fun apply_event :: "string list \<Rightarrow> event \<Rightarrow> string list" where
  "apply_event ds (Mkdtemp d) = List.insert d ds"
| "apply_event ds (Rmtree d None) = removeAll d ds"
| "apply_event ds _ = ds"

definition live_dirs :: "event list \<Rightarrow> string list" where
  "live_dirs evs = foldl apply_event [] evs"

fun is_Rmtree :: "event \<Rightarrow> bool" where
  "is_Rmtree (Rmtree _ _) = True"
| "is_Rmtree _ = False"

subsection \<open>The runner and its collaborators\<close>

text \<open>The fields of \<^verbatim>\<open>self\<close> the method reads.\<close>

record runner =
  clang_path :: string
  launcher_path :: "string option"
  compilation_timeout :: int

text \<open>
  What the method calls and does not define is a parameter of the model:
  \<^item> \<^verbatim>\<open>tempfile.mkdtemp\<close>;
  \<^item> \<^verbatim>\<open>logging.fatal\<close>: absl aborts the process inside its own log handler, so the
    call does not return where that handler is installed (as it is under
    \<^verbatim>\<open>app.run\<close>) and returns after logging where it is not; \<open>fatal_aborts\<close> says
    which;
  \<^item> \<^verbatim>\<open>compilation_runner.get_command_line_for_bundle\<close>, whose three arguments can
    each be \<^verbatim>\<open>None\<close>;
  \<^item> \<^verbatim>\<open>compilation_runner.start_cancellable_process\<close> (the cancellation manager is
    part of its behaviour; \<open>None\<close> is a normal return);
  \<^item> reading the log file, \<^verbatim>\<open>Struct.ParseFromString\<close> followed by
    \<^verbatim>\<open>fields.items()\<close> with each value's \<^verbatim>\<open>string_value\<close>,
    \<^verbatim>\<open>base64.b64decode\<close> and \<^verbatim>\<open>SequenceExample.ParseFromString\<close>. The entries
    come in the order the iteration gives them; their keys are those of a protobuf map, so
    a property that needs them distinct assumes it;
  \<^item> \<^verbatim>\<open>tf.io.gfile.rmtree\<close>, which removes the directory (\<open>None\<close>) or raises.
\<close>

record env =
  mkdtemp :: "error + string"
  fatal_aborts :: bool
  get_command_line_for_bundle ::
    "string option \<Rightarrow> string option \<Rightarrow> string option \<Rightarrow> error + string list"
  start_cancellable_process :: "string list \<Rightarrow> int \<Rightarrow> error option"
  read_log :: "string \<Rightarrow> error + string"
  parse_struct :: "string \<Rightarrow> error + (string \<times> string) list"
  b64decode :: "string \<Rightarrow> error + string"
  parse_sequence_example :: "string \<Rightarrow> error + sequence_example"
  rmtree :: "string \<Rightarrow> error option"

subsection \<open>Paths and the arity check\<close>

text \<open>\<^verbatim>\<open>os.path.join(a, b)\<close> for a relative \<open>b\<close>, as \<^verbatim>\<open>posixpath\<close> has it.\<close>

definition path_join :: "string \<Rightarrow> string \<Rightarrow> string" where
  "path_join a b = (if a = [] \<or> last a = CHR ''/'' then a @ b else a @ ''/'' @ b)"

definition log_path :: "string \<Rightarrow> string" where
  "log_path working_dir = path_join working_dir ''log''"

definition output_native_path :: "string \<Rightarrow> string" where
  "output_native_path working_dir = path_join working_dir ''native''"

text \<open>
  The three paths are \<^verbatim>\<open>None\<close> until \<^verbatim>\<open>file_paths\<close> is unpacked into them:
  all three for three paths, the index left \<^verbatim>\<open>None\<close> for two. \<open>None\<close> is the
  \<^verbatim>\<open>else\<close> branch, where nothing is assigned.
\<close>

type_synonym paths = "string option \<times> string option \<times> string option"

fun unpack_file_paths :: "string list \<Rightarrow> paths option" where
  "unpack_file_paths [input_ir_path, cmd_path, thinlto_index_path] =
     Some (Some input_ir_path, Some cmd_path, Some thinlto_index_path)"
| "unpack_file_paths [input_ir_path, cmd_path] = Some (Some input_ir_path, Some cmd_path, None)"
| "unpack_file_paths _ = None"

text \<open>
  The \<^verbatim>\<open>if\<close>/\<^verbatim>\<open>elif\<close>/\<^verbatim>\<open>else\<close> of lines 78 to 83: the paths the method
  goes on with, or \<open>None\<close> when \<^verbatim>\<open>logging.fatal\<close> has aborted the process. Nothing
  follows the call of \<^verbatim>\<open>logging.fatal\<close> in its branch, so where it returns the
  method goes on with the three paths still \<^verbatim>\<open>None\<close>.
\<close>

definition assign_file_paths :: "env \<Rightarrow> string list \<Rightarrow> paths option" where
  "assign_file_paths e file_paths =
     (case unpack_file_paths file_paths of
        Some paths \<Rightarrow> Some paths
      | None \<Rightarrow> if fatal_aborts e then None else Some (None, None, None))"

subsection \<open>The command line\<close>

text \<open>
  \<^verbatim>\<open>if self._launcher_path:\<close> and \<^verbatim>\<open>if tf_policy_path:\<close> test truthiness: an
  empty string counts as absent.
\<close>

definition launcher_prefix :: "runner \<Rightarrow> string list" where
  "launcher_prefix self =
     (case launcher_path self of
        None \<Rightarrow> []
      | Some l \<Rightarrow> if l = [] then [] else [l])"

definition command_line :: "runner \<Rightarrow> string list \<Rightarrow> string \<Rightarrow> string \<Rightarrow> string list" where
  "command_line self bundle working_dir tf_policy_path =
     launcher_prefix self @
     ([clang_path self] @ bundle @
      [''-mllvm'', ''-thinlto-assume-merged'',
       ''-mllvm'', ''-regalloc-enable-advisor=development'',
       ''-mllvm'', ''-regalloc-training-log='' @ log_path working_dir,
       ''-o'', output_native_path working_dir]) @
     (if tf_policy_path = [] then [] else [''-mllvm'', ''-regalloc-model='' @ tf_policy_path])"

definition build_command_line ::
  "env \<Rightarrow> runner \<Rightarrow> string \<Rightarrow> paths \<Rightarrow> string \<Rightarrow> error + string list" where
  "build_command_line e self working_dir paths tf_policy_path =
     (case paths of (input_ir_path, cmd_path, thinlto_index_path) \<Rightarrow>
        (case get_command_line_for_bundle e cmd_path input_ir_path thinlto_index_path of
           Inl err \<Rightarrow> Inl err
         | Inr bundle \<Rightarrow> Inr (command_line self bundle working_dir tf_policy_path)))"

definition is_log_flag :: "string \<Rightarrow> bool" where
  "is_log_flag a = prefix ''-regalloc-training-log='' a"

definition is_policy_flag :: "string \<Rightarrow> bool" where
  "is_policy_flag a = prefix ''-regalloc-model='' a"

subsection \<open>Extracting the reward\<close>

text \<open>
  \<^verbatim>\<open>feature_list['reward']\<close> on a protobuf map of messages inserts an empty entry for
  a missing key and returns it.
\<close>

definition feature_list_getitem ::
  "(string \<rightharpoonup> feature list) \<Rightarrow> string \<Rightarrow> feature list \<times> (string \<rightharpoonup> feature list)" where
  "feature_list_getitem fl k =
     (case fl k of None \<Rightarrow> ([], fl(k \<mapsto> [])) | Some fs \<Rightarrow> (fs, fl))"

text \<open>
  \<^verbatim>\<open>.feature[-1].float_list.value[0]\<close>: the last feature, then the first of its
  floats; either index raises \<^verbatim>\<open>IndexError\<close> on an empty repeated field.
\<close>

definition last_feature_first_float :: "feature list \<Rightarrow> error + real" where
  "last_feature_first_float fs =
     (if fs = [] then Inl IndexError
      else (case float_list_value (last fs) of
              [] \<Rightarrow> Inl IndexError
            | v # _ \<Rightarrow> Inr v))"

definition decode_trace :: "env \<Rightarrow> string \<Rightarrow> error + sequence_example" where
  "decode_trace e string_value =
     (case b64decode e string_value of
        Inl err \<Rightarrow> Inl err
      | Inr bytes \<Rightarrow> parse_sequence_example e bytes)"

text \<open>
  The body of the \<^verbatim>\<open>for\<close> loop up to the assignment: decode the payload, leave
  the entry out (\<open>Inr None\<close>, the \<^verbatim>\<open>continue\<close>) when the trace has no
  \<^verbatim>\<open>feature_lists\<close>, read the reward, and pair it with \<^verbatim>\<open>None\<close> or with the
  trace after \<^verbatim>\<open>del e.feature_lists.feature_list['reward']\<close>.
\<close>

definition extract_entry ::
  "env \<Rightarrow> bool \<Rightarrow> string \<Rightarrow> error + (sequence_example option \<times> real) option" where
  "extract_entry e reward_only val =
     (case decode_trace e val of
        Inl err \<Rightarrow> Inl err
      | Inr ex \<Rightarrow>
         (case feature_lists ex of
            None \<Rightarrow> Inr None
          | Some fl \<Rightarrow>
             (case feature_list_getitem fl ''reward'' of (fs, fl') \<Rightarrow>
                (case last_feature_first_float fs of
                   Inl err \<Rightarrow> Inl err
                 | Inr r \<Rightarrow>
                    if reward_only then Inr (Some (None, r))
                    else Inr (Some (Some (ex\<lparr>feature_lists := Some (fl'(''reward'' := None))\<rparr>),
                                    r))))))"

text \<open>One pass through the loop: \<^verbatim>\<open>result[key] = ...\<close> unless the entry is left out.\<close>

definition process_item ::
  "env \<Rightarrow> bool \<Rightarrow> string \<times> string \<Rightarrow> result_map \<Rightarrow> error + result_map" where
  "process_item e reward_only kv result =
     (case kv of (key, val) \<Rightarrow>
        (case extract_entry e reward_only val of
           Inl err \<Rightarrow> Inl err
         | Inr None \<Rightarrow> Inr result
         | Inr (Some entry) \<Rightarrow> Inr (result(key \<mapsto> entry))))"

fun process_items ::
  "env \<Rightarrow> bool \<Rightarrow> (string \<times> string) list \<Rightarrow> result_map \<Rightarrow> error + result_map" where
  "process_items e reward_only [] result = Inr result"
| "process_items e reward_only (kv # rest) result =
     (case process_item e reward_only kv result of
        Inl err \<Rightarrow> Inl err
      | Inr result' \<Rightarrow> process_items e reward_only rest result')"

subsection \<open>The body of the method\<close>

text \<open>
  The first half of the \<^verbatim>\<open>try\<close> block: build the command line, run the compiler, read
  and parse the log. It gives the entries of the log, or the exception that was raised,
  and the effects performed.
\<close>

definition read_container ::
  "env \<Rightarrow> runner \<Rightarrow> string \<Rightarrow> paths \<Rightarrow> string
     \<Rightarrow> (error + (string \<times> string) list) \<times> event list" where
  "read_container e self working_dir paths tf_policy_path =
     (case build_command_line e self working_dir paths tf_policy_path of
        Inl err \<Rightarrow> (Inl err, [])
      | Inr argv \<Rightarrow>
         (case start_cancellable_process e argv (compilation_timeout self) of
            Some err \<Rightarrow> (Inl err, [StartProcess argv])
          | None \<Rightarrow>
             (case read_log e (log_path working_dir) of
                Inl err \<Rightarrow> (Inl err, [StartProcess argv, OpenLog (log_path working_dir)])
              | Inr bytes \<Rightarrow>
                 (parse_struct e bytes, [StartProcess argv, OpenLog (log_path working_dir)]))))"

definition try_block ::
  "env \<Rightarrow> runner \<Rightarrow> string \<Rightarrow> paths \<Rightarrow> string \<Rightarrow> bool
     \<Rightarrow> (error + result_map) \<times> event list" where
  "try_block e self working_dir paths tf_policy_path reward_only =
     (case read_container e self working_dir paths tf_policy_path of
        (Inl err, evs) \<Rightarrow> (Inl err, evs)
      | (Inr items, evs) \<Rightarrow> (process_items e reward_only items Map.empty, evs))"

fun to_outcome :: "error + result_map \<Rightarrow> outcome" where
  "to_outcome (Inl err) = Raised err"
| "to_outcome (Inr result) = Returned result"

text \<open>
  The method: \<^verbatim>\<open>mkdtemp\<close> first, then the arity check, which is outside the
  \<^verbatim>\<open>try\<close>, then the \<^verbatim>\<open>try\<close> block with \<^verbatim>\<open>rmtree\<close> in its
  \<^verbatim>\<open>finally\<close>. An exception of \<^verbatim>\<open>rmtree\<close> takes the place of the result or
  of the exception of the \<^verbatim>\<open>try\<close> block.
\<close>

definition compile_fn ::
  "env \<Rightarrow> runner \<Rightarrow> string list \<Rightarrow> string \<Rightarrow> bool \<Rightarrow> outcome \<times> event list" where
  "compile_fn e self file_paths tf_policy_path reward_only =
     (case mkdtemp e of
        Inl err \<Rightarrow> (Raised err, [])
      | Inr working_dir \<Rightarrow>
         (case assign_file_paths e file_paths of
            None \<Rightarrow> (Fatal ''Expected 2 or 3 file paths'', [Mkdtemp working_dir])
          | Some paths \<Rightarrow>
             (case try_block e self working_dir paths tf_policy_path reward_only of
                (r, evs) \<Rightarrow>
                  (case rmtree e working_dir of
                     None \<Rightarrow>
                       (to_outcome r, Mkdtemp working_dir # evs @ [Rmtree working_dir None])
                   | Some err \<Rightarrow>
                       (Raised err, Mkdtemp working_dir # evs @ [Rmtree working_dir (Some err)])))))"

subsection \<open>The reward as the specification words it\<close>

text \<open>
  The specification's wording of the reward, for comparison with
  \<open>last_feature_first_float\<close>: the floats under the \<^verbatim>\<open>reward\<close> feature list, in
  order, of which the specification takes the last.
\<close>

definition reward_float_sequence :: "(string \<rightharpoonup> feature list) \<Rightarrow> real list" where
  "reward_float_sequence fl =
     concat (map float_list_value (case fl ''reward'' of None \<Rightarrow> [] | Some fs \<Rightarrow> fs))"

subsection \<open>A concrete world to run the model in\<close>

text \<open>
  A runner without launcher, and a world in which \<^verbatim>\<open>logging.fatal\<close> aborts and
  every step of a run on two or three paths succeeds up to the loop: the bundle needs its
  command file and its module, the log holds the given entries, \<^verbatim>\<open>b64decode\<close> is
  the identity and a payload parses to the trace the table gives it, or fails to parse
  when the table has none.
\<close>

definition example_runner :: runner where
  "example_runner = \<lparr>clang_path = ''/usr/bin/clang'', launcher_path = None, compilation_timeout = 60\<rparr>"

definition example_bundle :: "string option \<Rightarrow> string option \<Rightarrow> string option \<Rightarrow> error + string list" where
  "example_bundle cmd_path input_ir_path thinlto_index_path =
     (case (cmd_path, input_ir_path) of
        (Some c, Some i) \<Rightarrow> Inr [''-cc1'', ''-x'', ''ir'', i]
      | _ \<Rightarrow> Inl (OtherError ''TypeError''))"

definition example_env :: "(string \<times> string) list \<Rightarrow> (string \<times> sequence_example) list \<Rightarrow> env" where
  "example_env items traces =
     \<lparr>mkdtemp = Inr ''/tmp/tmpw'',
      fatal_aborts = True,
      get_command_line_for_bundle = example_bundle,
      start_cancellable_process = (\<lambda>argv timeout. None),
      read_log = (\<lambda>path. Inr ''bytes of the log''),
      parse_struct = (\<lambda>bytes. Inr items),
      b64decode = (\<lambda>string_value. Inr string_value),
      parse_sequence_example = (\<lambda>bytes.
         case map_of traces bytes of None \<Rightarrow> Inl DecodeError | Some ex \<Rightarrow> Inr ex),
      rmtree = (\<lambda>path. None)\<rparr>"

definition trace_with :: "(string \<times> feature list) list \<Rightarrow> sequence_example" where
  "trace_with fls = \<lparr>context_map = Map.empty, feature_lists = Some (map_of fls)\<rparr>"

definition trace_without_feature_lists :: sequence_example where
  "trace_without_feature_lists = \<lparr>context_map = Map.empty, feature_lists = None\<rparr>"

text \<open>The entry a returned dictionary holds for a key; \<open>None\<close> when nothing is returned.\<close>

fun returned_entry :: "outcome \<Rightarrow> string \<Rightarrow> (sequence_example option \<times> real) option" where
  "returned_entry (Returned m) k = m k"
| "returned_entry _ k = None"

section \<open>Properties\<close>

subsection \<open>The shape of a run\<close>

lemma unpack_None: "length fps \<noteq> 2 \<Longrightarrow> length fps \<noteq> 3 \<Longrightarrow> unpack_file_paths fps = None"
  by (cases fps rule: unpack_file_paths.cases) auto

text \<open>The unpacking succeeds exactly on two or three paths.\<close>

lemma unpack_valid_arity:
  "(\<exists>paths. unpack_file_paths fps = Some paths) \<longleftrightarrow> length fps = 2 \<or> length fps = 3"
  by (cases fps rule: unpack_file_paths.cases) auto

lemma assign_valid:
  "unpack_file_paths fps = Some paths \<Longrightarrow> assign_file_paths e fps = Some paths"
  by (simp add: assign_file_paths_def)

lemma assign_invalid:
  "unpack_file_paths fps = None \<Longrightarrow>
   assign_file_paths e fps = (if fatal_aborts e then None else Some (None, None, None))"
  by (simp add: assign_file_paths_def)

lemma compile_fn_aborted:
  "mkdtemp e = Inr wd \<Longrightarrow> assign_file_paths e fps = None \<Longrightarrow>
   compile_fn e self fps pol ro = (Fatal ''Expected 2 or 3 file paths'', [Mkdtemp wd])"
  by (simp add: compile_fn_def)

lemma compile_fn_entered:
  "mkdtemp e = Inr wd \<Longrightarrow> assign_file_paths e fps = Some paths \<Longrightarrow>
   compile_fn e self fps pol ro =
     ((case rmtree e wd of
         None \<Rightarrow> to_outcome (fst (try_block e self wd paths pol ro))
       | Some err \<Rightarrow> Raised err),
      Mkdtemp wd # snd (try_block e self wd paths pol ro) @ [Rmtree wd (rmtree e wd)])"
  by (simp add: compile_fn_def split: prod.splits option.splits)

lemma compile_fn_items:
  "mkdtemp e = Inr wd \<Longrightarrow> assign_file_paths e fps = Some paths \<Longrightarrow>
   read_container e self wd paths pol = (Inr items, evs) \<Longrightarrow>
   compile_fn e self fps pol ro =
     ((case rmtree e wd of
         None \<Rightarrow> to_outcome (process_items e ro items Map.empty)
       | Some err \<Rightarrow> Raised err),
      Mkdtemp wd # evs @ [Rmtree wd (rmtree e wd)])"
  by (simp add: compile_fn_entered try_block_def split: option.splits)

text \<open>An exception of \<^verbatim>\<open>rmtree\<close> is what the caller gets, whatever the run had.\<close>

lemma cleanup_failure_replaces_outcome:
  "mkdtemp e = Inr wd \<Longrightarrow> assign_file_paths e fps = Some paths \<Longrightarrow>
   rmtree e wd = Some err \<Longrightarrow> fst (compile_fn e self fps pol ro) = Raised err"
  by (simp add: compile_fn_entered)

lemma live_dirs_snoc: "live_dirs (evs @ [ev]) = apply_event (live_dirs evs) ev"
  by (simp add: live_dirs_def)

lemma live_dirs_removed: "wd \<notin> set (live_dirs (evs @ [Rmtree wd None]))"
  by (simp add: live_dirs_snoc)

subsection \<open>The loop over the entries of the log\<close>

lemma process_items_append:
  "process_items e ro (xs @ ys) res =
     (case process_items e ro xs res of
        Inl err \<Rightarrow> Inl err
      | Inr res' \<Rightarrow> process_items e ro ys res')"
  by (induction xs arbitrary: res) (auto split: sum.splits)

lemma process_item_error:
  "extract_entry e ro v = Inl err \<Longrightarrow> process_item e ro (k, v) res = Inl err"
  by (simp add: process_item_def)

lemma process_item_skip:
  "extract_entry e ro v = Inr None \<Longrightarrow> process_item e ro (k, v) res = Inr res"
  by (simp add: process_item_def)

lemma process_items_all_extracted:
  "process_items e ro items res = Inr m \<Longrightarrow> (k, v) \<in> set items \<Longrightarrow>
   \<exists>p. extract_entry e ro v = Inr p"
proof (induction items arbitrary: res)
  case Nil
  then show ?case by simp
next
  case (Cons kv rest)
  then show ?case
    by (cases kv; cases "extract_entry e ro (snd kv)")
       (auto simp: process_item_def split: sum.splits option.splits)
qed

lemma process_items_fails:
  "(k, v) \<in> set items \<Longrightarrow> extract_entry e ro v = Inl err \<Longrightarrow>
   \<exists>err'. process_items e ro items res = Inl err'"
  using process_items_all_extracted [of e ro items res _ k v]
  by (cases "process_items e ro items res") auto

lemma process_items_first_failure:
  "process_items e ro pre res = Inr m \<Longrightarrow> extract_entry e ro v = Inl err \<Longrightarrow>
   process_items e ro (pre @ (k, v) # post) res = Inl err"
  by (simp add: process_items_append process_item_error)

lemma process_items_skip:
  "extract_entry e ro v = Inr None \<Longrightarrow>
   process_items e ro (pre @ (k, v) # post) res = process_items e ro (pre @ post) res"
  by (simp add: process_items_append process_item_skip split: sum.splits)

lemma process_items_other_key:
  "process_items e ro items res = Inr m \<Longrightarrow> k \<notin> fst ` set items \<Longrightarrow> m k = res k"
proof (induction items arbitrary: res)
  case Nil
  then show ?case by simp
next
  case (Cons kv rest)
  obtain k' v' where kv: "kv = (k', v')" by (cases kv)
  from Cons.prems obtain res' where
    step: "process_item e ro (k', v') res = Inr res'" and
    rest: "process_items e ro rest res' = Inr m"
    by (auto simp: kv split: sum.splits)
  from Cons.prems have "k \<noteq> k'" "k \<notin> fst ` set rest" by (auto simp: kv)
  with Cons.IH [OF rest] have "m k = res' k" by simp
  moreover from step \<open>k \<noteq> k'\<close> have "res' k = res k"
    by (auto simp: process_item_def split: sum.splits option.splits)
  ultimately show ?case by simp
qed

lemma process_items_entry:
  "process_items e ro items res = Inr m \<Longrightarrow> distinct (map fst items) \<Longrightarrow>
   (k, v) \<in> set items \<Longrightarrow>
   extract_entry e ro v = Inr p \<Longrightarrow> m k = (case p of None \<Rightarrow> res k | Some entry \<Rightarrow> Some entry)"
proof (induction items arbitrary: res)
  case Nil
  then show ?case by simp
next
  case (Cons kv rest)
  obtain k' v' where kv: "kv = (k', v')" by (cases kv)
  from Cons.prems obtain res' where
    step: "process_item e ro (k', v') res = Inr res'" and
    rest: "process_items e ro rest res' = Inr m"
    by (auto simp: kv split: sum.splits)
  from Cons.prems have dist: "distinct (map fst rest)" and fresh: "k' \<notin> fst ` set rest"
    by (auto simp: kv)
  show ?case
  proof (cases "(k, v) \<in> set rest")
    case True
    then have "k \<noteq> k'" using fresh by force
    with step have "res' k = res k"
      by (auto simp: process_item_def split: sum.splits option.splits)
    with Cons.IH [OF rest dist True Cons.prems(4)] show ?thesis
      by (simp split: option.splits)
  next
    case False
    with Cons.prems(3) have same: "k' = k" "v' = v" by (auto simp: kv)
    from fresh same have "k \<notin> fst ` set rest" by simp
    from process_items_other_key [OF rest this] have "m k = res' k" .
    moreover from step Cons.prems(4) have "res' k = (case p of None \<Rightarrow> res k | Some entry \<Rightarrow> Some entry)"
      by (auto simp: same process_item_def split: option.splits)
    ultimately show ?thesis by simp
  qed
qed

lemma process_items_dom:
  "process_items e ro items res = Inr m \<Longrightarrow>
   dom m = dom res \<union> {k. \<exists>v entry. (k, v) \<in> set items \<and> extract_entry e ro v = Inr (Some entry)}"
proof (induction items arbitrary: res)
  case Nil
  then show ?case by simp
next
  case (Cons kv rest)
  obtain k' v' where kv: "kv = (k', v')" by (cases kv)
  from Cons.prems obtain res' where
    step: "process_item e ro (k', v') res = Inr res'" and
    rest: "process_items e ro rest res' = Inr m"
    by (auto simp: kv split: sum.splits)
  from step have "dom res' = dom res \<union> {k. k = k' \<and> (\<exists>entry. extract_entry e ro v' = Inr (Some entry))}"
    by (auto simp: process_item_def split: sum.splits option.splits)
  with Cons.IH [OF rest] show ?case
    by (auto simp: kv)
qed

lemma process_items_provenance:
  "process_items e ro items res = Inr m \<Longrightarrow> m k = Some entry \<Longrightarrow>
   res k = Some entry \<or> (\<exists>v. (k, v) \<in> set items \<and> extract_entry e ro v = Inr (Some entry))"
proof (induction items arbitrary: res)
  case Nil
  then show ?case by simp
next
  case (Cons kv rest)
  obtain k' v' where kv: "kv = (k', v')" by (cases kv)
  from Cons.prems obtain res' where
    step: "process_item e ro (k', v') res = Inr res'" and
    rest: "process_items e ro rest res' = Inr m"
    by (auto simp: kv split: sum.splits)
  from Cons.IH [OF rest Cons.prems(2)]
  consider "res' k = Some entry"
    | v where "(k, v) \<in> set rest" "extract_entry e ro v = Inr (Some entry)"
    by blast
  then show ?case
  proof cases
    case 1
    with step have "res k = Some entry \<or> (k = k' \<and> extract_entry e ro v' = Inr (Some entry))"
      by (auto simp: process_item_def split: sum.splits option.splits if_splits)
    then show ?thesis by (auto simp: kv)
  next
    case 2
    then show ?thesis by (auto simp: kv)
  qed
qed

lemma compile_fn_Returned:
  assumes "fst (compile_fn e self fps pol ro) = Returned m"
  shows "\<exists>wd paths items evs. mkdtemp e = Inr wd \<and> assign_file_paths e fps = Some paths \<and>
           rmtree e wd = None \<and>
           read_container e self wd paths pol = (Inr items, evs) \<and>
           process_items e ro items Map.empty = Inr m"
proof (cases "mkdtemp e")
  case (Inl err)
  with assms show ?thesis by (simp add: compile_fn_def)
next
  case (Inr wd)
  show ?thesis
  proof (cases "assign_file_paths e fps")
    case None
    with Inr assms show ?thesis by (simp add: compile_fn_aborted)
  next
    case (Some paths)
    obtain r evs where rc: "read_container e self wd paths pol = (r, evs)"
      by (cases "read_container e self wd paths pol")
    from Inr Some assms have clean: "rmtree e wd = None"
      by (cases "rmtree e wd") (simp_all add: compile_fn_entered)
    show ?thesis
    proof (cases r)
      case (Inl err)
      with rc Inr Some clean assms show ?thesis
        by (simp add: compile_fn_entered try_block_def)
    next
      case items: (Inr items)
      with rc Inr Some clean assms
      have "to_outcome (process_items e ro items Map.empty) = Returned m"
        by (simp add: compile_fn_items)
      then have "process_items e ro items Map.empty = Inr m"
        by (cases "process_items e ro items Map.empty") auto
      with rc Inr Some clean items show ?thesis by blast
    qed
  qed
qed

lemma failing_entry_aborts:
  assumes wd: "mkdtemp e = Inr wd"
    and paths: "assign_file_paths e fps = Some paths"
    and log: "read_container e self wd paths pol = (Inr (pre @ (k, v) # post), evs)"
    and fail: "extract_entry e ro v = Inl err"
  shows "(\<exists>err'. fst (compile_fn e self fps pol ro) = Raised err') \<and>
         (\<forall>m. process_items e ro pre Map.empty = Inr m \<longrightarrow> rmtree e wd = None \<longrightarrow>
                fst (compile_fn e self fps pol ro) = Raised err) \<and>
         snd (compile_fn e self fps pol ro) = Mkdtemp wd # evs @ [Rmtree wd (rmtree e wd)] \<and>
         (rmtree e wd = None \<longrightarrow> wd \<notin> set (live_dirs (snd (compile_fn e self fps pol ro))))"
proof -
  let ?items = "pre @ (k, v) # post"
  have run: "compile_fn e self fps pol ro =
      ((case rmtree e wd of
          None \<Rightarrow> to_outcome (process_items e ro ?items Map.empty)
        | Some err \<Rightarrow> Raised err),
       Mkdtemp wd # evs @ [Rmtree wd (rmtree e wd)])"
    by (rule compile_fn_items [OF wd paths log])
  have "(k, v) \<in> set ?items" by simp
  from process_items_fails [OF this fail]
  obtain err' where "process_items e ro ?items Map.empty = Inl err'" by blast
  with run have some: "\<exists>err'. fst (compile_fn e self fps pol ro) = Raised err'"
    by (cases "rmtree e wd") simp_all
  have first: "\<forall>m. process_items e ro pre Map.empty = Inr m \<longrightarrow> rmtree e wd = None \<longrightarrow>
                fst (compile_fn e self fps pol ro) = Raised err"
    using run fail by (auto simp: process_items_first_failure)
  have trace: "snd (compile_fn e self fps pol ro) = Mkdtemp wd # evs @ [Rmtree wd (rmtree e wd)]"
    using run by simp
  have "wd \<notin> set (live_dirs ((Mkdtemp wd # evs) @ [Rmtree wd None]))"
    by (rule live_dirs_removed)
  with trace have gone:
    "rmtree e wd = None \<longrightarrow> wd \<notin> set (live_dirs (snd (compile_fn e self fps pol ro)))"
    by simp
  from some first trace gone show ?thesis by blast
qed

subsection \<open>The concrete world\<close>

lemma example_read_container:
  "read_container (example_env items traces) self wd (Some ir, Some cmd, idx) pol =
     (Inr items,
      [StartProcess (command_line self [''-cc1'', ''-x'', ''ir'', ir] wd pol), OpenLog (log_path wd)])"
  by (simp add: read_container_def build_command_line_def example_env_def example_bundle_def)

lemma example_decode:
  "decode_trace (example_env items traces) v =
     (case map_of traces v of None \<Rightarrow> Inl DecodeError | Some ex \<Rightarrow> Inr ex)"
  by (simp add: decode_trace_def example_env_def)

lemma example_mkdtemp: "mkdtemp (example_env items traces) = Inr ''/tmp/tmpw''"
  by (simp add: example_env_def)

lemma example_rmtree: "rmtree (example_env items traces) d = None"
  by (simp add: example_env_def)

lemma example_assign:
  "assign_file_paths (example_env items traces) [ir, cmd] = Some (Some ir, Some cmd, None)"
  "assign_file_paths (example_env items traces) [ir, cmd, idx] = Some (Some ir, Some cmd, Some idx)"
  by (simp_all add: assign_file_paths_def)

subsection \<open>The arity check\<close>

text \<open>
  On a tuple of paths whose length is neither 2 nor 3 the working directory has been
  created by the time the length is looked at. Where \<^verbatim>\<open>logging.fatal\<close> aborts, that
  is the only effect of the run, and the directory stays. Where it returns, the method
  goes on into the \<^verbatim>\<open>try\<close> block with the three paths \<^verbatim>\<open>None\<close>.
\<close>

lemma arity_violation_creates_working_area:
  assumes "length file_paths \<noteq> 2" and "length file_paths \<noteq> 3"
    and "mkdtemp e = Inr working_dir"
  shows "(\<exists>rest. snd (compile_fn e self file_paths tf_policy_path reward_only) =
                  Mkdtemp working_dir # rest) \<and>
         (fatal_aborts e \<longrightarrow>
            compile_fn e self file_paths tf_policy_path reward_only =
              (Fatal ''Expected 2 or 3 file paths'', [Mkdtemp working_dir])) \<and>
         (\<not> fatal_aborts e \<longrightarrow>
            compile_fn e self file_paths tf_policy_path reward_only =
              ((case rmtree e working_dir of
                  None \<Rightarrow> to_outcome (fst (try_block e self working_dir (None, None, None)
                                               tf_policy_path reward_only))
                | Some err \<Rightarrow> Raised err),
               Mkdtemp working_dir #
               snd (try_block e self working_dir (None, None, None) tf_policy_path reward_only) @
               [Rmtree working_dir (rmtree e working_dir)]))"
proof -
  from assms(1,2) have none: "unpack_file_paths file_paths = None" by (rule unpack_None)
  show ?thesis
  proof (cases "fatal_aborts e")
    case True
    with none have "assign_file_paths e file_paths = None" by (simp add: assign_invalid)
    from compile_fn_aborted [OF assms(3) this] True show ?thesis by simp
  next
    case False
    with none have "assign_file_paths e file_paths = Some (None, None, None)"
      by (simp add: assign_invalid)
    from compile_fn_entered [OF assms(3) this] False show ?thesis by simp
  qed
qed

text \<open>
  Claim C1 fails on the code. The claim has a run on a tuple of the wrong length fail
  before any file-system resource is created, with no working directory ever made. On a
  single path, where \<^verbatim>\<open>logging.fatal\<close> aborts, the working directory is created
  before the run aborts, it is the run's only effect, and it is still there afterwards.
\<close>

theorem arity_one_creates_working_area:
  "length [''a.bc''] \<noteq> 2 \<and> length [''a.bc''] \<noteq> 3 \<and>
   compile_fn (example_env [] []) example_runner [''a.bc''] [] False =
     (Fatal ''Expected 2 or 3 file paths'', [Mkdtemp ''/tmp/tmpw'']) \<and>
   live_dirs (snd (compile_fn (example_env [] []) example_runner [''a.bc''] [] False)) = [''/tmp/tmpw'']"
  by (simp add: compile_fn_def assign_file_paths_def example_env_def live_dirs_def)

text \<open>
  Where \<^verbatim>\<open>logging.fatal\<close> returns, the same call goes on: the bundle is asked for
  with no paths, its exception ends the \<^verbatim>\<open>try\<close> block and the directory is removed.
\<close>

lemma arity_one_without_abort:
  "compile_fn ((example_env [] [])\<lparr>fatal_aborts := False\<rparr>) example_runner [''a.bc''] [] False =
     (Raised (OtherError ''TypeError''), [Mkdtemp ''/tmp/tmpw'', Rmtree ''/tmp/tmpw'' None])"
  by (simp add: compile_fn_def assign_file_paths_def example_env_def try_block_def
      read_container_def build_command_line_def example_bundle_def)

subsection \<open>Removal of the working directory\<close>

text \<open>
  Every run that enters the \<^verbatim>\<open>try\<close> block ends with a call of \<^verbatim>\<open>rmtree\<close> on
  the working directory, whatever the block did, and the directory is gone when that call
  succeeds.
\<close>

lemma finally_removes_working_area:
  assumes "mkdtemp e = Inr working_dir"
    and "assign_file_paths e file_paths = Some paths"
  shows "(\<exists>evs. snd (compile_fn e self file_paths tf_policy_path reward_only) =
                  Mkdtemp working_dir # evs @ [Rmtree working_dir (rmtree e working_dir)]) \<and>
         (rmtree e working_dir = None \<longrightarrow>
            working_dir \<notin> set (live_dirs (snd (compile_fn e self file_paths tf_policy_path reward_only))))"
proof -
  let ?evs = "snd (try_block e self working_dir paths tf_policy_path reward_only)"
  have run: "snd (compile_fn e self file_paths tf_policy_path reward_only) =
      Mkdtemp working_dir # ?evs @ [Rmtree working_dir (rmtree e working_dir)]"
    by (simp add: compile_fn_entered [OF assms])
  have "working_dir \<notin> set (live_dirs ((Mkdtemp working_dir # ?evs) @ [Rmtree working_dir None]))"
    by (rule live_dirs_removed)
  with run show ?thesis by simp
qed

text \<open>
  Claim C5 fails on the code. The claim has the working directory removed on every exit
  path of a run that created it. On four paths, where \<^verbatim>\<open>logging.fatal\<close> aborts, the
  run has created the directory and ends without a call of \<^verbatim>\<open>rmtree\<close>: the
  directory is still there.
\<close>

theorem arity_abort_leaves_working_area:
  "fst (compile_fn (example_env [] []) example_runner
          [''a.bc'', ''a.cmd'', ''a.thinlto.bc'', ''extra''] ''/policy'' True) =
     Fatal ''Expected 2 or 3 file paths'' \<and>
   filter is_Rmtree (snd (compile_fn (example_env [] []) example_runner
          [''a.bc'', ''a.cmd'', ''a.thinlto.bc'', ''extra''] ''/policy'' True)) = [] \<and>
   ''/tmp/tmpw'' \<in> set (live_dirs (snd (compile_fn (example_env [] []) example_runner
          [''a.bc'', ''a.cmd'', ''a.thinlto.bc'', ''extra''] ''/policy'' True)))"
  by (simp add: compile_fn_def assign_file_paths_def example_env_def live_dirs_def)

subsection \<open>Payloads that do not decode\<close>

text \<open>
  Claim C2, as amended. A payload that cannot be decoded as a trace is not skipped: the
  decoding error leaves the loop, so the run raises and returns no dictionary, whatever
  the other entries hold. The run's last effect is the call of \<^verbatim>\<open>rmtree\<close> on the
  working directory. Where that call succeeds, the directory is gone before the error
  reaches the caller, and the error raised is the one of this payload when the entries
  before it went through.
\<close>

theorem undecodable_payload_aborts_run:
  assumes "mkdtemp e = Inr working_dir"
    and "assign_file_paths e file_paths = Some paths"
    and "read_container e self working_dir paths tf_policy_path = (Inr (pre @ (key, val) # post), evs)"
    and "decode_trace e val = Inl err"
  shows "(\<exists>err'. fst (compile_fn e self file_paths tf_policy_path reward_only) = Raised err') \<and>
         (\<forall>m. process_items e reward_only pre Map.empty = Inr m \<longrightarrow>
                rmtree e working_dir = None \<longrightarrow>
                fst (compile_fn e self file_paths tf_policy_path reward_only) = Raised err) \<and>
         snd (compile_fn e self file_paths tf_policy_path reward_only) =
           Mkdtemp working_dir # evs @ [Rmtree working_dir (rmtree e working_dir)] \<and>
         (rmtree e working_dir = None \<longrightarrow>
            working_dir \<notin> set (live_dirs (snd (compile_fn e self file_paths tf_policy_path reward_only))))"
proof -
  from assms(4) have "extract_entry e reward_only val = Inl err"
    by (simp add: extract_entry_def)
  from failing_entry_aborts [OF assms(1-3) this] show ?thesis .
qed

text \<open>The same on a log of two entries, the second of which does not decode.\<close>

theorem undecodable_payload_aborts_run_witness:
  "fst (compile_fn
          (example_env [(''f'', ''good''), (''g'', ''bad'')]
             [(''good'', trace_with [(''reward'', [FloatList [1]])])])
          example_runner [''a.bc'', ''a.cmd''] [] True) = Raised DecodeError \<and>
   ''/tmp/tmpw'' \<notin> set (live_dirs (snd (compile_fn
          (example_env [(''f'', ''good''), (''g'', ''bad'')]
             [(''good'', trace_with [(''reward'', [FloatList [1]])])])
          example_runner [''a.bc'', ''a.cmd''] [] True)))"
proof -
  let ?e = "example_env [(''f'', ''good''), (''g'', ''bad'')]
             [(''good'', trace_with [(''reward'', [FloatList [1]])])]"
  have wd: "mkdtemp ?e = Inr ''/tmp/tmpw''" by (rule example_mkdtemp)
  have paths: "assign_file_paths ?e [''a.bc'', ''a.cmd''] = Some (Some ''a.bc'', Some ''a.cmd'', None)"
    by (rule example_assign)
  have log: "read_container ?e example_runner ''/tmp/tmpw'' (Some ''a.bc'', Some ''a.cmd'', None) [] =
      (Inr ([(''f'', ''good'')] @ (''g'', ''bad'') # []),
       [StartProcess (command_line example_runner [''-cc1'', ''-x'', ''ir'', ''a.bc''] ''/tmp/tmpw'' []),
        OpenLog (log_path ''/tmp/tmpw'')])"
    by (simp add: example_read_container)
  have dec: "decode_trace ?e ''bad'' = Inl DecodeError" by (simp add: example_decode)
  have pre: "\<exists>m. process_items ?e True [(''f'', ''good'')] Map.empty = Inr m"
    by (simp add: process_item_def extract_entry_def example_decode trace_with_def
        feature_list_getitem_def last_feature_first_float_def)
  have clean: "rmtree ?e ''/tmp/tmpw'' = None" by (rule example_rmtree)
  from undecodable_payload_aborts_run [OF wd paths log dec, of True] pre clean
  show ?thesis by blast
qed

text \<open>
  Claim C2 as stated fails: on that log the entry that decodes is not returned, the run
  raises the decoding error of the other one.
\<close>

theorem undecodable_payload_loses_other_keys:
  "decode_trace (example_env [(''f'', ''good''), (''g'', ''bad'')]
             [(''good'', trace_with [(''reward'', [FloatList [1]])])]) ''good'' =
     Inr (trace_with [(''reward'', [FloatList [1]])]) \<and>
   decode_trace (example_env [(''f'', ''good''), (''g'', ''bad'')]
             [(''good'', trace_with [(''reward'', [FloatList [1]])])]) ''bad'' = Inl DecodeError \<and>
   fst (compile_fn
          (example_env [(''f'', ''good''), (''g'', ''bad'')]
             [(''good'', trace_with [(''reward'', [FloatList [1]])])])
          example_runner [''a.bc'', ''a.cmd''] [] True) = Raised DecodeError \<and>
   returned_entry (fst (compile_fn
          (example_env [(''f'', ''good''), (''g'', ''bad'')]
             [(''good'', trace_with [(''reward'', [FloatList [1]])])])
          example_runner [''a.bc'', ''a.cmd''] [] True)) ''f'' = None"
  by (simp add: compile_fn_def example_mkdtemp example_assign example_rmtree try_block_def
      example_read_container process_item_def extract_entry_def example_decode trace_with_def
      feature_list_getitem_def last_feature_first_float_def)

subsection \<open>Traces without a reward\<close>



text \<open>
  Claim C10. For every decoded trace that has feature lists but no \<^verbatim>\<open>reward\<close>
  list among them, the lookup of \<^verbatim>\<open>reward\<close> makes an empty list, the index into
  it raises \<^verbatim>\<open>IndexError\<close>, and the run fails as it does for an empty reward list:
  it raises and returns no dictionary, and the entry is not skipped. The error raised is
  this \<^verbatim>\<open>IndexError\<close> when the entries before it went through and \<^verbatim>\<open>rmtree\<close>
  succeeds.
\<close>

theorem absent_reward_list_aborts_run:
  assumes "mkdtemp e = Inr working_dir"
    and "assign_file_paths e file_paths = Some paths"
    and "read_container e self working_dir paths tf_policy_path = (Inr (pre @ (key, val) # post), evs)"
    and "decode_trace e val = Inr ex"
    and "feature_lists ex = Some fl"
    and "fl ''reward'' = None"
  shows "feature_list_getitem fl ''reward'' = ([], fl(''reward'' \<mapsto> [])) \<and>
         last_feature_first_float (fst (feature_list_getitem fl ''reward'')) = Inl IndexError \<and>
         extract_entry e reward_only val = Inl IndexError \<and>
         (\<exists>err. fst (compile_fn e self file_paths tf_policy_path reward_only) = Raised err) \<and>
         (\<forall>m. process_items e reward_only pre Map.empty = Inr m \<longrightarrow>
                rmtree e working_dir = None \<longrightarrow>
                fst (compile_fn e self file_paths tf_policy_path reward_only) = Raised IndexError) \<and>
         snd (compile_fn e self file_paths tf_policy_path reward_only) =
           Mkdtemp working_dir # evs @ [Rmtree working_dir (rmtree e working_dir)]"
proof -
  from assms(6) have get: "feature_list_getitem fl ''reward'' = ([], fl(''reward'' \<mapsto> []))"
    by (simp add: feature_list_getitem_def)
  then have idx: "last_feature_first_float (fst (feature_list_getitem fl ''reward'')) = Inl IndexError"
    by (simp add: last_feature_first_float_def)
  from assms(4-6) have fail: "extract_entry e reward_only val = Inl IndexError"
    by (simp add: extract_entry_def feature_list_getitem_def last_feature_first_float_def)
  from get idx fail failing_entry_aborts [OF assms(1-3) fail] show ?thesis by blast
qed

text \<open>The same on a log whose first trace has one feature list, not the reward.\<close>

theorem absent_reward_list_aborts_run_witness:
  "fst (compile_fn
          (example_env [(''f'', ''p1''), (''g'', ''p2'')]
             [(''p1'', trace_with [(''observed'', [Int64List [7]])]),
              (''p2'', trace_with [(''reward'', [FloatList [1]])])])
          example_runner [''a.bc'', ''a.cmd'', ''a.thinlto.bc''] [] True) = Raised IndexError \<and>
   extract_entry
          (example_env [(''f'', ''p1''), (''g'', ''p2'')]
             [(''p1'', trace_with [(''observed'', [Int64List [7]])]),
              (''p2'', trace_with [(''reward'', [FloatList [1]])])]) True ''p1'' = Inl IndexError"
proof -
  let ?e = "example_env [(''f'', ''p1''), (''g'', ''p2'')]
             [(''p1'', trace_with [(''observed'', [Int64List [7]])]),
              (''p2'', trace_with [(''reward'', [FloatList [1]])])]"
  have wd: "mkdtemp ?e = Inr ''/tmp/tmpw''" by (rule example_mkdtemp)
  have paths: "assign_file_paths ?e [''a.bc'', ''a.cmd'', ''a.thinlto.bc''] =
      Some (Some ''a.bc'', Some ''a.cmd'', Some ''a.thinlto.bc'')" by (rule example_assign)
  have log: "read_container ?e example_runner ''/tmp/tmpw''
        (Some ''a.bc'', Some ''a.cmd'', Some ''a.thinlto.bc'') [] =
      (Inr ([] @ (''f'', ''p1'') # [(''g'', ''p2'')]),
       [StartProcess (command_line example_runner [''-cc1'', ''-x'', ''ir'', ''a.bc''] ''/tmp/tmpw'' []),
        OpenLog (log_path ''/tmp/tmpw'')])"
    by (simp add: example_read_container)
  have dec: "decode_trace ?e ''p1'' = Inr (trace_with [(''observed'', [Int64List [7]])])"
    by (simp add: example_decode)
  have fls: "feature_lists (trace_with [(''observed'', [Int64List [7]])]) =
      Some (map_of [(''observed'', [Int64List [7]])])"
    by (simp add: trace_with_def)
  have absent: "map_of [(''observed'', [Int64List [7]])] ''reward'' = None" by simp
  have clean: "rmtree ?e ''/tmp/tmpw'' = None" by (rule example_rmtree)
  from absent_reward_list_aborts_run [OF wd paths log dec fls absent, of True] clean
  show ?thesis by simp
qed

subsection \<open>What the caller observes\<close>

text \<open>
  Claim C6. Every run ends in exactly one of three ways: it raises one exception, it aborts
  with the fatal arity error, or it returns a dictionary. A returned dictionary is
  complete: every entry of the log was extracted without error, the keys of the dictionary
  are exactly the keys of the entries that were not skipped, and (keys being distinct) each
  holds the pair extracted from its entry. No dictionary comes with an error.
\<close>

theorem complete_result_or_single_failure:
  "(\<exists>err. fst (compile_fn e self file_paths tf_policy_path reward_only) = Raised err) \<or>
   (\<exists>msg. fst (compile_fn e self file_paths tf_policy_path reward_only) = Fatal msg) \<or>
   (\<exists>m working_dir paths items evs.
      fst (compile_fn e self file_paths tf_policy_path reward_only) = Returned m \<and>
      mkdtemp e = Inr working_dir \<and>
      assign_file_paths e file_paths = Some paths \<and>
      rmtree e working_dir = None \<and>
      read_container e self working_dir paths tf_policy_path = (Inr items, evs) \<and>
      (\<forall>kv \<in> set items. \<exists>p. extract_entry e reward_only (snd kv) = Inr p) \<and>
      dom m = {k. \<exists>v entry. (k, v) \<in> set items \<and>
                     extract_entry e reward_only v = Inr (Some entry)} \<and>
      (distinct (map fst items) \<longrightarrow>
         (\<forall>kv \<in> set items. \<forall>entry.
            extract_entry e reward_only (snd kv) = Inr (Some entry) \<longrightarrow>
            m (fst kv) = Some entry)))"
proof (cases "fst (compile_fn e self file_paths tf_policy_path reward_only)")
  case (Returned m)
  from compile_fn_Returned [OF this]
  obtain wd paths items evs where
    wd: "mkdtemp e = Inr wd" and
    paths: "assign_file_paths e file_paths = Some paths" and
    clean: "rmtree e wd = None" and
    log: "read_container e self wd paths tf_policy_path = (Inr items, evs)" and
    loop: "process_items e reward_only items Map.empty = Inr m"
    by blast
  have all: "\<forall>kv \<in> set items. \<exists>p. extract_entry e reward_only (snd kv) = Inr p"
    using process_items_all_extracted [OF loop] by auto
  have keys: "dom m = {k. \<exists>v entry. (k, v) \<in> set items \<and>
                     extract_entry e reward_only v = Inr (Some entry)}"
    using process_items_dom [OF loop] by simp
  have vals: "distinct (map fst items) \<longrightarrow>
         (\<forall>kv \<in> set items. \<forall>entry.
            extract_entry e reward_only (snd kv) = Inr (Some entry) \<longrightarrow>
            m (fst kv) = Some entry)"
  proof (intro impI ballI allI)
    fix kv entry
    assume d: "distinct (map fst items)" and kv: "kv \<in> set items"
      and ex: "extract_entry e reward_only (snd kv) = Inr (Some entry)"
    from kv have "(fst kv, snd kv) \<in> set items" by simp
    from process_items_entry [OF loop d this ex] show "m (fst kv) = Some entry" by simp
  qed
  from Returned wd paths clean log all keys vals show ?thesis by blast
next
  case (Raised err)
  then show ?thesis by simp
next
  case (Fatal msg)
  then show ?thesis by simp
qed

text \<open>The same on a log of two entries, one of them skipped.\<close>

theorem complete_result_or_single_failure_witness:
  "fst (compile_fn
          (example_env [(''f'', ''p1''), (''g'', ''p2'')]
             [(''p1'', trace_with [(''reward'', [FloatList [1]])]),
              (''p2'', trace_without_feature_lists)])
          example_runner [''a.bc'', ''a.cmd''] [] True) = Returned [''f'' \<mapsto> (None, 1)] \<and>
   dom [''f'' \<mapsto> (None :: sequence_example option, 1 :: real)] = {''f''}"
proof -
  let ?e = "example_env [(''f'', ''p1''), (''g'', ''p2'')]
             [(''p1'', trace_with [(''reward'', [FloatList [1]])]),
              (''p2'', trace_without_feature_lists)]"
  let ?out = "fst (compile_fn ?e example_runner [''a.bc'', ''a.cmd''] [] True)"
  have ex1: "extract_entry ?e True ''p1'' = Inr (Some (None, 1))"
    by (simp add: extract_entry_def example_decode trace_with_def
        feature_list_getitem_def last_feature_first_float_def)
  have ex2: "extract_entry ?e True ''p2'' = Inr None"
    by (simp add: extract_entry_def example_decode trace_without_feature_lists_def)
  have out: "?out = Returned [''f'' \<mapsto> (None, 1)]"
    by (simp add: compile_fn_def example_mkdtemp example_assign example_rmtree try_block_def
        example_read_container process_item_def ex1 ex2)
  have log: "read_container ?e example_runner ''/tmp/tmpw'' (Some ''a.bc'', Some ''a.cmd'', None) [] =
      (Inr [(''f'', ''p1''), (''g'', ''p2'')],
       [StartProcess (command_line example_runner [''-cc1'', ''-x'', ''ir'', ''a.bc''] ''/tmp/tmpw'' []),
        OpenLog (log_path ''/tmp/tmpw'')])"
    by (simp add: example_read_container)
  have n1: "\<not> (\<exists>err. ?out = Raised err)" by (simp add: out)
  have n2: "\<not> (\<exists>msg. ?out = Fatal msg)" by (simp add: out)
  note inst = complete_result_or_single_failure [of ?e example_runner "[''a.bc'', ''a.cmd'']" "[]" True]
  from inst n1 n2
  obtain m wd paths items evs where
    ret: "?out = Returned m" and
    wd: "mkdtemp ?e = Inr wd" and
    paths: "assign_file_paths ?e [''a.bc'', ''a.cmd''] = Some paths" and
    rc: "read_container ?e example_runner wd paths [] = (Inr items, evs)" and
    keys: "dom m = {k. \<exists>v entry. (k, v) \<in> set items \<and> extract_entry ?e True v = Inr (Some entry)}"
    by (elim disjE exE conjE) (fast, fast, fast)
  from wd have wd': "wd = ''/tmp/tmpw''" by (simp add: example_mkdtemp)
  from paths have paths': "paths = (Some ''a.bc'', Some ''a.cmd'', None)" by (simp add: example_assign)
  from rc log have items: "items = [(''f'', ''p1''), (''g'', ''p2'')]"
    unfolding wd' paths' by simp
  have "{k. \<exists>v entry. (k, v) \<in> set [(''f'', ''p1''), (''g'', ''p2'')] \<and>
            extract_entry ?e True v = Inr (Some entry)} = {''f''}"
    by (auto simp: ex1 ex2)
  with keys items have "dom m = {''f''}" by simp
  moreover from ret out have "m = [''f'' \<mapsto> (None, 1)]" by simp
  ultimately show ?thesis using out by simp
qed

subsection \<open>Traces without feature lists\<close>

text \<open>
  Claim C7. For every decoded trace that has no \<^verbatim>\<open>feature_lists\<close> at all, the
  entry is skipped: the pass through the loop leaves the dictionary as it was, the
  \<^verbatim>\<open>try\<close> block goes on and ends as it would on the log without that entry, so does
  the run where \<^verbatim>\<open>rmtree\<close> succeeds, and the key (keys of the log being distinct) is
  not in a returned dictionary.
\<close>

theorem trace_without_feature_lists_is_skipped:
  assumes "mkdtemp e = Inr working_dir"
    and "assign_file_paths e file_paths = Some paths"
    and "read_container e self working_dir paths tf_policy_path = (Inr (pre @ (key, val) # post), evs)"
    and "distinct (map fst (pre @ (key, val) # post))"
    and "decode_trace e val = Inr ex"
    and "feature_lists ex = None"
  shows "extract_entry e reward_only val = Inr None \<and>
         process_item e reward_only (key, val) result = Inr result \<and>
         fst (try_block e self working_dir paths tf_policy_path reward_only) =
           process_items e reward_only (pre @ post) Map.empty \<and>
         (rmtree e working_dir = None \<longrightarrow>
            fst (compile_fn e self file_paths tf_policy_path reward_only) =
              to_outcome (process_items e reward_only (pre @ post) Map.empty)) \<and>
         returned_entry (fst (compile_fn e self file_paths tf_policy_path reward_only)) key = None"
proof -
  let ?items = "pre @ (key, val) # post"
  from assms(5,6) have skip: "extract_entry e reward_only val = Inr None"
    by (simp add: extract_entry_def)
  have block: "fst (try_block e self working_dir paths tf_policy_path reward_only) =
           process_items e reward_only (pre @ post) Map.empty"
    by (simp add: try_block_def assms(3) process_items_skip [OF skip])
  have run: "fst (compile_fn e self file_paths tf_policy_path reward_only) =
      (case rmtree e working_dir of
         None \<Rightarrow> to_outcome (process_items e reward_only ?items Map.empty)
       | Some err \<Rightarrow> Raised err)"
    by (simp add: compile_fn_items [OF assms(1-3)])
  have rest: "rmtree e working_dir = None \<longrightarrow>
            fst (compile_fn e self file_paths tf_policy_path reward_only) =
              to_outcome (process_items e reward_only (pre @ post) Map.empty)"
    by (simp add: run process_items_skip [OF skip])
  have absent: "returned_entry (fst (compile_fn e self file_paths tf_policy_path reward_only)) key = None"
  proof (cases "rmtree e working_dir")
    case (Some err)
    with run show ?thesis by simp
  next
    case None
    show ?thesis
    proof (cases "process_items e reward_only ?items Map.empty")
      case (Inl err)
      with run None show ?thesis by simp
    next
      case (Inr m)
      have "(key, val) \<in> set ?items" by simp
      from process_items_entry [OF Inr assms(4) this skip] have "m key = None" by simp
      with run None Inr show ?thesis by simp
    qed
  qed
  from skip block rest absent show ?thesis by (simp add: process_item_skip)
qed

text \<open>The same on a log of three entries, the second without feature lists.\<close>

theorem trace_without_feature_lists_is_skipped_witness:
  "returned_entry (fst (compile_fn
          (example_env [(''f'', ''p1''), (''g'', ''p2''), (''h'', ''p3'')]
             [(''p1'', trace_with [(''reward'', [FloatList [1]])]),
              (''p2'', trace_without_feature_lists),
              (''p3'', trace_with [(''reward'', [FloatList [2], FloatList [3]])])])
          example_runner [''a.bc'', ''a.cmd''] [] True)) ''g'' = None \<and>
   returned_entry (fst (compile_fn
          (example_env [(''f'', ''p1''), (''g'', ''p2''), (''h'', ''p3'')]
             [(''p1'', trace_with [(''reward'', [FloatList [1]])]),
              (''p2'', trace_without_feature_lists),
              (''p3'', trace_with [(''reward'', [FloatList [2], FloatList [3]])])])
          example_runner [''a.bc'', ''a.cmd''] [] True)) ''h'' = Some (None, 3)"
proof -
  let ?e = "example_env [(''f'', ''p1''), (''g'', ''p2''), (''h'', ''p3'')]
             [(''p1'', trace_with [(''reward'', [FloatList [1]])]),
              (''p2'', trace_without_feature_lists),
              (''p3'', trace_with [(''reward'', [FloatList [2], FloatList [3]])])]"
  have wd: "mkdtemp ?e = Inr ''/tmp/tmpw''" by (rule example_mkdtemp)
  have paths: "assign_file_paths ?e [''a.bc'', ''a.cmd''] = Some (Some ''a.bc'', Some ''a.cmd'', None)"
    by (rule example_assign)
  have log: "read_container ?e example_runner ''/tmp/tmpw'' (Some ''a.bc'', Some ''a.cmd'', None) [] =
      (Inr ([(''f'', ''p1'')] @ (''g'', ''p2'') # [(''h'', ''p3'')]),
       [StartProcess (command_line example_runner [''-cc1'', ''-x'', ''ir'', ''a.bc''] ''/tmp/tmpw'' []),
        OpenLog (log_path ''/tmp/tmpw'')])"
    by (simp add: example_read_container)
  have dist: "distinct (map fst ([(''f'', ''p1'')] @ (''g'', ''p2'') # [(''h'', ''p3'')]))" by simp
  have dec: "decode_trace ?e ''p2'' = Inr trace_without_feature_lists"
    by (simp add: example_decode)
  have nofl: "feature_lists trace_without_feature_lists = None"
    by (simp add: trace_without_feature_lists_def)
  have rest: "process_items ?e True ([(''f'', ''p1'')] @ [(''h'', ''p3'')]) Map.empty =
      Inr [''f'' \<mapsto> (None, 1), ''h'' \<mapsto> (None, 3)]"
    by (simp add: process_item_def extract_entry_def example_decode trace_with_def
        feature_list_getitem_def last_feature_first_float_def)
  have clean: "rmtree ?e ''/tmp/tmpw'' = None" by (rule example_rmtree)
  from trace_without_feature_lists_is_skipped [OF wd paths log dist dec nofl, of True] rest clean
  show ?thesis by simp
qed

subsection \<open>Reward-only mode\<close>

text \<open>
  What a stored pair is in reward-only mode: \<^verbatim>\<open>None\<close> and the first float of the
  last feature of the trace's \<^verbatim>\<open>reward\<close> list.
\<close>

lemma extract_entry_reward_only:
  assumes "extract_entry e True val = Inr (Some entry)"
  shows "\<exists>ex fl fs vs. decode_trace e val = Inr ex \<and> feature_lists ex = Some fl \<and>
           fl ''reward'' = Some fs \<and> fs \<noteq> [] \<and>
           float_list_value (last fs) = snd entry # vs \<and> entry = (None, snd entry)"
proof -
  from assms obtain ex fl where ex: "decode_trace e val = Inr ex" and fl: "feature_lists ex = Some fl"
    by (auto simp: extract_entry_def split: sum.splits option.splits)
  show ?thesis
  proof (cases "fl ''reward''")
    case None
    with assms ex fl show ?thesis
      by (simp add: extract_entry_def feature_list_getitem_def last_feature_first_float_def)
  next
    case (Some fs)
    with assms ex fl obtain r where r: "last_feature_first_float fs = Inr r"
      and entry: "entry = (None, r)"
      by (auto simp: extract_entry_def feature_list_getitem_def split: sum.splits)
    from r have "fs \<noteq> [] \<and> (\<exists>vs. float_list_value (last fs) = r # vs)"
      by (auto simp: last_feature_first_float_def split: if_splits list.splits)
    with ex fl Some entry show ?thesis by auto
  qed
qed

text \<open>
  Claim C8. In reward-only mode every entry of the returned dictionary pairs
  \<^verbatim>\<open>None\<close> with the scalar reward: no key maps to a decoded trace, and the number
  paired with \<^verbatim>\<open>None\<close> is the reward of a trace logged under that key, the first
  float of the last feature of its \<^verbatim>\<open>reward\<close> list. Keys being distinct, every
  decoded trace of the log that has feature lists has this entry under its key.
\<close>

theorem reward_only_entries_have_no_trace:
  assumes "mkdtemp e = Inr working_dir"
    and "assign_file_paths e file_paths = Some paths"
    and "read_container e self working_dir paths tf_policy_path = (Inr items, evs)"
    and "fst (compile_fn e self file_paths tf_policy_path True) = Returned m"
  shows "(\<forall>key entry. m key = Some entry \<longrightarrow>
            (\<exists>val ex fl fs r vs.
               (key, val) \<in> set items \<and> decode_trace e val = Inr ex \<and>
               feature_lists ex = Some fl \<and> fl ''reward'' = Some fs \<and> fs \<noteq> [] \<and>
               float_list_value (last fs) = r # vs \<and> entry = (None, r))) \<and>
         (distinct (map fst items) \<longrightarrow>
            (\<forall>key val ex fl.
               (key, val) \<in> set items \<and> decode_trace e val = Inr ex \<and>
               feature_lists ex = Some fl \<longrightarrow>
               (\<exists>fs r vs. fl ''reward'' = Some fs \<and> fs \<noteq> [] \<and>
                  float_list_value (last fs) = r # vs \<and> m key = Some (None, r))))"
proof -
  from compile_fn_Returned [OF assms(4)] assms(1-3)
  have loop: "process_items e True items Map.empty = Inr m" by auto
  have from_map: "\<forall>key entry. m key = Some entry \<longrightarrow>
            (\<exists>val ex fl fs r vs.
               (key, val) \<in> set items \<and> decode_trace e val = Inr ex \<and>
               feature_lists ex = Some fl \<and> fl ''reward'' = Some fs \<and> fs \<noteq> [] \<and>
               float_list_value (last fs) = r # vs \<and> entry = (None, r))"
  proof (intro allI impI)
    fix key entry
    assume "m key = Some entry"
    from process_items_provenance [OF loop this]
    obtain val where mem: "(key, val) \<in> set items"
      and ex: "extract_entry e True val = Inr (Some entry)"
      by auto
    from extract_entry_reward_only [OF ex] mem
    show "\<exists>val ex fl fs r vs.
               (key, val) \<in> set items \<and> decode_trace e val = Inr ex \<and>
               feature_lists ex = Some fl \<and> fl ''reward'' = Some fs \<and> fs \<noteq> [] \<and>
               float_list_value (last fs) = r # vs \<and> entry = (None, r)"
      by blast
  qed
  have from_log: "distinct (map fst items) \<longrightarrow>
            (\<forall>key val ex fl.
               (key, val) \<in> set items \<and> decode_trace e val = Inr ex \<and>
               feature_lists ex = Some fl \<longrightarrow>
               (\<exists>fs r vs. fl ''reward'' = Some fs \<and> fs \<noteq> [] \<and>
                  float_list_value (last fs) = r # vs \<and> m key = Some (None, r)))"
  proof (intro impI allI)
    fix key val ex fl
    assume d: "distinct (map fst items)"
      and h: "(key, val) \<in> set items \<and> decode_trace e val = Inr ex \<and> feature_lists ex = Some fl"
    from h have mem: "(key, val) \<in> set items" and dec: "decode_trace e val = Inr ex"
      and fls: "feature_lists ex = Some fl" by simp_all
    from process_items_all_extracted [OF loop mem]
    obtain p where p: "extract_entry e True val = Inr p" by blast
    from p dec fls obtain entry where some: "p = Some entry"
      by (auto simp: extract_entry_def split: sum.splits prod.splits if_splits)
    from extract_entry_reward_only [OF p [unfolded some]] dec fls
    obtain fs vs where fs: "fl ''reward'' = Some fs" "fs \<noteq> []"
      "float_list_value (last fs) = snd entry # vs" and entry: "entry = (None, snd entry)"
      by auto
    from process_items_entry [OF loop d mem p] some entry
    have "m key = Some (None, snd entry)" by simp
    with fs show "\<exists>fs r vs. fl ''reward'' = Some fs \<and> fs \<noteq> [] \<and>
                  float_list_value (last fs) = r # vs \<and> m key = Some (None, r)"
      by blast
  qed
  from from_map from_log show ?thesis by blast
qed

text \<open>The same on a log of two entries: the rewards are 1 and 5, not 2 and not 6.\<close>

theorem reward_only_entries_have_no_trace_witness:
  "returned_entry (fst (compile_fn
          (example_env [(''f'', ''p1''), (''g'', ''p2'')]
             [(''p1'', trace_with [(''reward'', [FloatList [1]])]),
              (''p2'', trace_with [(''reward'', [FloatList [2], FloatList [5, 6]])])])
          example_runner [''a.bc'', ''a.cmd''] ''/policy'' True)) ''g'' = Some (None, 5) \<and>
   returned_entry (fst (compile_fn
          (example_env [(''f'', ''p1''), (''g'', ''p2'')]
             [(''p1'', trace_with [(''reward'', [FloatList [1]])]),
              (''p2'', trace_with [(''reward'', [FloatList [2], FloatList [5, 6]])])])
          example_runner [''a.bc'', ''a.cmd''] ''/policy'' True)) ''f'' = Some (None, 1)"
proof -
  let ?t1 = "trace_with [(''reward'', [FloatList [1]])]"
  let ?t2 = "trace_with [(''reward'', [FloatList [2], FloatList [5, 6]])]"
  let ?e = "example_env [(''f'', ''p1''), (''g'', ''p2'')] [(''p1'', ?t1), (''p2'', ?t2)]"
  let ?out = "fst (compile_fn ?e example_runner [''a.bc'', ''a.cmd''] ''/policy'' True)"
  have wd: "mkdtemp ?e = Inr ''/tmp/tmpw''" by (rule example_mkdtemp)
  have paths: "assign_file_paths ?e [''a.bc'', ''a.cmd''] = Some (Some ''a.bc'', Some ''a.cmd'', None)"
    by (rule example_assign)
  have log: "read_container ?e example_runner ''/tmp/tmpw'' (Some ''a.bc'', Some ''a.cmd'', None) ''/policy'' =
      (Inr [(''f'', ''p1''), (''g'', ''p2'')],
       [StartProcess (command_line example_runner [''-cc1'', ''-x'', ''ir'', ''a.bc''] ''/tmp/tmpw'' ''/policy''),
        OpenLog (log_path ''/tmp/tmpw'')])"
    by (simp add: example_read_container)
  have "\<exists>m. ?out = Returned m"
    by (simp add: compile_fn_def example_mkdtemp example_assign example_rmtree try_block_def
        example_read_container process_item_def extract_entry_def example_decode trace_with_def
        feature_list_getitem_def last_feature_first_float_def)
  then obtain m where out: "?out = Returned m" by blast
  have dist: "distinct (map fst [(''f'', ''p1''), (''g'', ''p2'')])" by simp
  note inst = reward_only_entries_have_no_trace [OF wd paths log out]
  from inst dist have each: "\<And>key val ex fl.
      (key, val) \<in> set [(''f'', ''p1''), (''g'', ''p2'')] \<Longrightarrow> decode_trace ?e val = Inr ex \<Longrightarrow>
      feature_lists ex = Some fl \<Longrightarrow>
      \<exists>fs r vs. fl ''reward'' = Some fs \<and> fs \<noteq> [] \<and>
         float_list_value (last fs) = r # vs \<and> m key = Some (None, r)"
    by blast
  have g: "m ''g'' = Some (None, 5)"
  proof -
    have "(''g'', ''p2'') \<in> set [(''f'', ''p1''), (''g'', ''p2'')]" by simp
    moreover have "decode_trace ?e ''p2'' = Inr ?t2" by (simp add: example_decode)
    moreover have "feature_lists ?t2 = Some (map_of [(''reward'', [FloatList [2], FloatList [5, 6]])])"
      by (simp add: trace_with_def)
    ultimately obtain fs r vs where
      "map_of [(''reward'', [FloatList [2], FloatList [5, 6]])] ''reward'' = Some fs"
      "float_list_value (last fs) = r # vs" "m ''g'' = Some (None, r)"
      using each by blast
    then show ?thesis by auto
  qed
  have f: "m ''f'' = Some (None, 1)"
  proof -
    have "(''f'', ''p1'') \<in> set [(''f'', ''p1''), (''g'', ''p2'')]" by simp
    moreover have "decode_trace ?e ''p1'' = Inr ?t1" by (simp add: example_decode)
    moreover have "feature_lists ?t1 = Some (map_of [(''reward'', [FloatList [1]])])"
      by (simp add: trace_with_def)
    ultimately obtain fs r vs where
      "map_of [(''reward'', [FloatList [1]])] ''reward'' = Some fs"
      "float_list_value (last fs) = r # vs" "m ''f'' = Some (None, r)"
      using each by blast
    then show ?thesis by auto
  qed
  from out f g show ?thesis by simp
qed

subsection \<open>The returned trace and its reward\<close>

lemma last_feature_first_float_Inr:
  "last_feature_first_float fs = Inr r \<Longrightarrow>
   fs \<noteq> [] \<and> (\<exists>vs. float_list_value (last fs) = r # vs)"
  by (auto simp: last_feature_first_float_def split: if_splits list.splits)

lemma extract_entry_full_trace:
  assumes "decode_trace e val = Inr ex" and "feature_lists ex = Some fl"
    and "extract_entry e False val = Inr p"
  shows "\<exists>fs r vs. fl ''reward'' = Some fs \<and> fs \<noteq> [] \<and> float_list_value (last fs) = r # vs \<and>
           p = Some (Some (ex\<lparr>feature_lists := Some (fl(''reward'' := None))\<rparr>), r)"
proof (cases "fl ''reward''")
  case None
  with assms show ?thesis
    by (simp add: extract_entry_def feature_list_getitem_def last_feature_first_float_def)
next
  case (Some fs)
  with assms obtain r where r: "last_feature_first_float fs = Inr r"
    and p: "p = Some (Some (ex\<lparr>feature_lists := Some (fl(''reward'' := None))\<rparr>), r)"
    by (auto simp: extract_entry_def feature_list_getitem_def split: sum.splits)
  from last_feature_first_float_Inr [OF r] Some p show ?thesis by blast
qed

text \<open>
  Where the last feature of the reward list holds a single float, the reward the code
  reads is the last float under the reward list, as the specification words it.
\<close>

lemma single_float_reward_is_last_of_sequence:
  assumes "fl ''reward'' = Some fs" and "fs \<noteq> []" and "float_list_value (last fs) = [r]"
  shows "last_feature_first_float fs = Inr (last (reward_float_sequence fl))"
proof -
  from assms(2) have "fs = butlast fs @ [last fs]" by simp
  then have "map float_list_value fs = map float_list_value (butlast fs) @ [float_list_value (last fs)]"
    by (metis list.simps(8,9) map_append)
  then have "concat (map float_list_value fs) = concat (map float_list_value (butlast fs)) @ [r]"
    by (simp add: assms(3))
  then have "last (reward_float_sequence fl) = r"
    by (simp add: reward_float_sequence_def assms(1))
  with assms show ?thesis by (simp add: last_feature_first_float_def)
qed

text \<open>
  Claim C4, as amended. When reward-only mode is off and the run returns, the entry of
  every decoded trace that has feature lists holds that trace with the \<^verbatim>\<open>reward\<close>
  feature list removed and nothing else changed, and the reward paired with it is the
  first float of the last feature of the \<^verbatim>\<open>reward\<close> list of the original trace,
  a list that is then present and not empty.
\<close>

theorem returned_trace_and_reward:
  assumes "mkdtemp e = Inr working_dir"
    and "assign_file_paths e file_paths = Some paths"
    and "read_container e self working_dir paths tf_policy_path = (Inr items, evs)"
    and "distinct (map fst items)"
    and "(key, val) \<in> set items"
    and "decode_trace e val = Inr ex"
    and "feature_lists ex = Some fl"
    and "fst (compile_fn e self file_paths tf_policy_path False) = Returned m"
  shows "\<exists>fs r vs. fl ''reward'' = Some fs \<and> fs \<noteq> [] \<and> float_list_value (last fs) = r # vs \<and>
           m key = Some (Some (ex\<lparr>feature_lists := Some (fl(''reward'' := None))\<rparr>), r)"
proof -
  from compile_fn_Returned [OF assms(8)] assms(1-3)
  have loop: "process_items e False items Map.empty = Inr m" by auto
  from process_items_all_extracted [OF loop assms(5)]
  obtain p where p: "extract_entry e False val = Inr p" by blast
  from extract_entry_full_trace [OF assms(6,7) p]
  obtain fs r vs where fs: "fl ''reward'' = Some fs" "fs \<noteq> []" "float_list_value (last fs) = r # vs"
    and entry: "p = Some (Some (ex\<lparr>feature_lists := Some (fl(''reward'' := None))\<rparr>), r)"
    by blast
  from process_items_entry [OF loop assms(4,5) p] entry
  have "m key = Some (Some (ex\<lparr>feature_lists := Some (fl(''reward'' := None))\<rparr>), r)" by simp
  with fs show ?thesis by blast
qed

text \<open>The same on a log of one entry whose reward list has two features.\<close>

theorem returned_trace_and_reward_witness:
  "returned_entry (fst (compile_fn
          (example_env [(''f'', ''p1'')]
             [(''p1'', trace_with [(''reward'', [FloatList [4], FloatList [5]])])])
          example_runner [''a.bc'', ''a.cmd''] [] False)) ''f'' =
     Some (Some ((trace_with [(''reward'', [FloatList [4], FloatList [5]])])
                   \<lparr>feature_lists := Some ((map_of [(''reward'', [FloatList [4], FloatList [5]])])
                                              (''reward'' := None))\<rparr>), 5)"
proof -
  let ?fs = "[FloatList [4], FloatList [5]]"
  let ?e = "example_env [(''f'', ''p1'')] [(''p1'', trace_with [(''reward'', ?fs)])]"
  let ?out = "fst (compile_fn ?e example_runner [''a.bc'', ''a.cmd''] [] False)"
  have wd: "mkdtemp ?e = Inr ''/tmp/tmpw''" by (rule example_mkdtemp)
  have paths: "assign_file_paths ?e [''a.bc'', ''a.cmd''] = Some (Some ''a.bc'', Some ''a.cmd'', None)"
    by (rule example_assign)
  have log: "read_container ?e example_runner ''/tmp/tmpw'' (Some ''a.bc'', Some ''a.cmd'', None) [] =
      (Inr [(''f'', ''p1'')],
       [StartProcess (command_line example_runner [''-cc1'', ''-x'', ''ir'', ''a.bc''] ''/tmp/tmpw'' []),
        OpenLog (log_path ''/tmp/tmpw'')])"
    by (simp add: example_read_container)
  have dist: "distinct (map fst [(''f'', ''p1'')])" by simp
  have mem: "(''f'', ''p1'') \<in> set [(''f'', ''p1'')]" by simp
  have dec: "decode_trace ?e ''p1'' = Inr (trace_with [(''reward'', ?fs)])"
    by (simp add: example_decode)
  have fls: "feature_lists (trace_with [(''reward'', ?fs)]) = Some (map_of [(''reward'', ?fs)])"
    by (simp add: trace_with_def)
  have "\<exists>m. ?out = Returned m"
    by (simp add: compile_fn_def example_mkdtemp example_assign example_rmtree try_block_def
        example_read_container
        process_item_def extract_entry_def example_decode trace_with_def
        feature_list_getitem_def last_feature_first_float_def)
  then obtain m where out: "?out = Returned m" by blast
  from returned_trace_and_reward [OF wd paths log dist mem dec fls out]
  obtain fs r vs where
    fs: "map_of [(''reward'', ?fs)] ''reward'' = Some fs" and
    r: "float_list_value (last fs) = r # vs" and
    entry: "m ''f'' = Some (Some ((trace_with [(''reward'', ?fs)])
                   \<lparr>feature_lists := Some ((map_of [(''reward'', ?fs)])(''reward'' := None))\<rparr>), r)"
    by blast
  from fs have "fs = ?fs" by simp
  with r have "r = 5" by simp
  with entry out show ?thesis by simp
qed

text \<open>
  Claim C4 as stated fails: where the last feature of the reward list holds the floats
  1 and 2, the last float under the reward list is 2 and the reward returned is 1.
\<close>

theorem reward_is_first_float_of_last_feature:
  "map_option snd (returned_entry (fst (compile_fn
          (example_env [(''f'', ''p1'')]
             [(''p1'', trace_with [(''reward'', [FloatList [1, 2]])])])
          example_runner [''a.bc'', ''a.cmd''] [] False)) ''f'') = Some 1 \<and>
   last (reward_float_sequence (map_of [(''reward'', [FloatList [1, 2]])])) = 2"
  by (simp add: compile_fn_def example_mkdtemp example_assign example_rmtree try_block_def
        example_read_container
      process_item_def extract_entry_def example_decode trace_with_def
      feature_list_getitem_def last_feature_first_float_def reward_float_sequence_def)

subsection \<open>The argument vector\<close>

text \<open>
  The flags of the vector are those of the launcher, the compiler path, the bundle and
  the output path, and the one log flag and, with a policy, the one policy flag the method
  adds.
\<close>

lemma command_line_log_flags:
  "filter is_log_flag (command_line self bundle wd pol) =
     filter is_log_flag (launcher_prefix self @ [clang_path self] @ bundle) @
     [''-regalloc-training-log='' @ log_path wd] @
     filter is_log_flag [output_native_path wd]"
  by (simp add: command_line_def is_log_flag_def)

lemma command_line_policy_flags:
  "filter is_policy_flag (command_line self bundle wd pol) =
     filter is_policy_flag (launcher_prefix self @ [clang_path self] @ bundle) @
     filter is_policy_flag [output_native_path wd] @
     (if pol = [] then [] else [''-regalloc-model='' @ pol])"
  by (simp add: command_line_def is_policy_flag_def)

lemma command_line_launcher_first:
  "launcher_path self = Some l \<Longrightarrow> l \<noteq> [] \<Longrightarrow>
   \<exists>rest. command_line self bundle wd pol = l # clang_path self # rest"
  by (simp add: command_line_def launcher_prefix_def)

text \<open>
  Claim C9, as amended. For every tuple of two or three input paths whose bundle the
  collaborator returns, and provided that neither the launcher, the compiler path, an
  argument of the bundle nor the output path is itself a log flag or a policy flag, the
  argument vector contains exactly one log flag, the one naming the log path of the
  working directory; it contains exactly one policy flag if and only if the policy path
  is not empty, and none otherwise; and a configured launcher is its first element, the
  compiler path the second.
\<close>

theorem command_line_flags:
  assumes "unpack_file_paths file_paths = Some (input_ir_path, cmd_path, thinlto_index_path)"
    and "get_command_line_for_bundle e cmd_path input_ir_path thinlto_index_path = Inr bundle"
    and "\<forall>a \<in> set (launcher_prefix self @ [clang_path self] @ bundle @ [output_native_path working_dir]).
           \<not> is_log_flag a \<and> \<not> is_policy_flag a"
  shows "\<exists>argv.
           build_command_line e self working_dir (input_ir_path, cmd_path, thinlto_index_path)
             tf_policy_path = Inr argv \<and>
           filter is_log_flag argv = [''-regalloc-training-log='' @ log_path working_dir] \<and>
           length (filter is_log_flag argv) = 1 \<and>
           (length (filter is_policy_flag argv) = 1) = (tf_policy_path \<noteq> []) \<and>
           filter is_policy_flag argv =
             (if tf_policy_path = [] then [] else [''-regalloc-model='' @ tf_policy_path]) \<and>
           (\<forall>l. launcher_path self = Some l \<and> l \<noteq> [] \<longrightarrow>
                (\<exists>rest. argv = l # clang_path self # rest))"
proof -
  let ?argv = "command_line self bundle working_dir tf_policy_path"
  from assms(2) have built:
    "build_command_line e self working_dir (input_ir_path, cmd_path, thinlto_index_path)
       tf_policy_path = Inr ?argv"
    by (simp add: build_command_line_def)
  from assms(3) have base_log:
    "filter is_log_flag (launcher_prefix self @ [clang_path self] @ bundle) = []"
    "filter is_log_flag [output_native_path working_dir] = []"
    by (auto simp: filter_empty_conv)
  from assms(3) have base_policy:
    "filter is_policy_flag (launcher_prefix self @ [clang_path self] @ bundle) = []"
    "filter is_policy_flag [output_native_path working_dir] = []"
    by (auto simp: filter_empty_conv)
  have log: "filter is_log_flag ?argv = [''-regalloc-training-log='' @ log_path working_dir]"
    unfolding command_line_log_flags base_log by simp
  have policy: "filter is_policy_flag ?argv =
      (if tf_policy_path = [] then [] else [''-regalloc-model='' @ tf_policy_path])"
    unfolding command_line_policy_flags base_policy by simp
  have first: "\<forall>l. launcher_path self = Some l \<and> l \<noteq> [] \<longrightarrow>
      (\<exists>rest. ?argv = l # clang_path self # rest)"
    using command_line_launcher_first by blast
  from log have one: "length (filter is_log_flag ?argv) = 1" by simp
  from policy have iff: "(length (filter is_policy_flag ?argv) = 1) = (tf_policy_path \<noteq> [])"
    by simp
  from built log one iff policy first show ?thesis by blast
qed

text \<open>The same with a launcher, three paths and a policy.\<close>

theorem command_line_flags_witness:
  "build_command_line (example_env [] []) (example_runner\<lparr>launcher_path := Some ''/usr/bin/nice''\<rparr>)
     ''/tmp/tmpw'' (Some ''a.bc'', Some ''a.cmd'', Some ''a.thinlto.bc'') ''/policy'' =
     Inr [''/usr/bin/nice'', ''/usr/bin/clang'', ''-cc1'', ''-x'', ''ir'', ''a.bc'',
          ''-mllvm'', ''-thinlto-assume-merged'',
          ''-mllvm'', ''-regalloc-enable-advisor=development'',
          ''-mllvm'', ''-regalloc-training-log=/tmp/tmpw/log'',
          ''-o'', ''/tmp/tmpw/native'',
          ''-mllvm'', ''-regalloc-model=/policy''] \<and>
   filter is_log_flag [''/usr/bin/nice'', ''/usr/bin/clang'', ''-cc1'', ''-x'', ''ir'', ''a.bc'',
          ''-mllvm'', ''-thinlto-assume-merged'',
          ''-mllvm'', ''-regalloc-enable-advisor=development'',
          ''-mllvm'', ''-regalloc-training-log=/tmp/tmpw/log'',
          ''-o'', ''/tmp/tmpw/native'',
          ''-mllvm'', ''-regalloc-model=/policy''] = [''-regalloc-training-log=/tmp/tmpw/log''] \<and>
   filter is_policy_flag [''/usr/bin/nice'', ''/usr/bin/clang'', ''-cc1'', ''-x'', ''ir'', ''a.bc'',
          ''-mllvm'', ''-thinlto-assume-merged'',
          ''-mllvm'', ''-regalloc-enable-advisor=development'',
          ''-mllvm'', ''-regalloc-training-log=/tmp/tmpw/log'',
          ''-o'', ''/tmp/tmpw/native'',
          ''-mllvm'', ''-regalloc-model=/policy''] = [''-regalloc-model=/policy'']"
proof -
  let ?self = "example_runner\<lparr>launcher_path := Some ''/usr/bin/nice''\<rparr>"
  let ?argv = "[''/usr/bin/nice'', ''/usr/bin/clang'', ''-cc1'', ''-x'', ''ir'', ''a.bc'',
          ''-mllvm'', ''-thinlto-assume-merged'',
          ''-mllvm'', ''-regalloc-enable-advisor=development'',
          ''-mllvm'', ''-regalloc-training-log=/tmp/tmpw/log'',
          ''-o'', ''/tmp/tmpw/native'',
          ''-mllvm'', ''-regalloc-model=/policy'']"
  have paths: "unpack_file_paths [''a.bc'', ''a.cmd'', ''a.thinlto.bc''] =
      Some (Some ''a.bc'', Some ''a.cmd'', Some ''a.thinlto.bc'')" by simp
  have bundled: "get_command_line_for_bundle (example_env [] []) (Some ''a.cmd'') (Some ''a.bc'') (Some ''a.thinlto.bc'') =
      Inr [''-cc1'', ''-x'', ''ir'', ''a.bc'']"
    by (simp add: example_env_def example_bundle_def)
  have base: "\<forall>a \<in> set (launcher_prefix ?self @ [clang_path ?self] @ [''-cc1'', ''-x'', ''ir'', ''a.bc''] @
                 [output_native_path ''/tmp/tmpw'']).
           \<not> is_log_flag a \<and> \<not> is_policy_flag a"
    by (simp add: launcher_prefix_def example_runner_def output_native_path_def path_join_def
        is_log_flag_def is_policy_flag_def)
  have built: "build_command_line (example_env [] []) ?self ''/tmp/tmpw''
      (Some ''a.bc'', Some ''a.cmd'', Some ''a.thinlto.bc'') ''/policy'' = Inr ?argv"
    by (simp add: build_command_line_def example_env_def example_bundle_def command_line_def
        launcher_prefix_def example_runner_def log_path_def output_native_path_def path_join_def)
  from command_line_flags [OF paths bundled base, of "''/policy''"]
  obtain argv where
    b: "build_command_line (example_env [] []) ?self ''/tmp/tmpw''
          (Some ''a.bc'', Some ''a.cmd'', Some ''a.thinlto.bc'') ''/policy'' = Inr argv" and
    l: "filter is_log_flag argv = [''-regalloc-training-log='' @ log_path ''/tmp/tmpw'']" and
    p: "filter is_policy_flag argv = (if ''/policy'' = [] then [] else [''-regalloc-model='' @ ''/policy''])"
    by blast
  from b built have "argv = ?argv" by simp
  with l p built show ?thesis
    by (simp add: log_path_def path_join_def)
qed

text \<open>
  Claim C9 as stated fails: the arguments of the bundle are passed on as they are, so a
  bundle that holds a log flag of its own gives a vector with two.
\<close>

theorem bundle_with_log_flag_gives_two:
  "unpack_file_paths [''a.bc'', ''a.cmd''] = Some (Some ''a.bc'', Some ''a.cmd'', None) \<and>
   build_command_line
     ((example_env [] [])\<lparr>get_command_line_for_bundle :=
        (\<lambda>cmd_path input_ir_path thinlto_index_path.
           Inr [''-cc1'', ''-mllvm'', ''-regalloc-training-log=/old/log'', ''-x'', ''ir'', ''a.bc''])\<rparr>)
     example_runner ''/tmp/tmpw'' (Some ''a.bc'', Some ''a.cmd'', None) [] =
     Inr [''/usr/bin/clang'', ''-cc1'', ''-mllvm'', ''-regalloc-training-log=/old/log'',
          ''-x'', ''ir'', ''a.bc'',
          ''-mllvm'', ''-thinlto-assume-merged'',
          ''-mllvm'', ''-regalloc-enable-advisor=development'',
          ''-mllvm'', ''-regalloc-training-log=/tmp/tmpw/log'',
          ''-o'', ''/tmp/tmpw/native''] \<and>
   length (filter is_log_flag
         [''/usr/bin/clang'', ''-cc1'', ''-mllvm'', ''-regalloc-training-log=/old/log'',
          ''-x'', ''ir'', ''a.bc'',
          ''-mllvm'', ''-thinlto-assume-merged'',
          ''-mllvm'', ''-regalloc-enable-advisor=development'',
          ''-mllvm'', ''-regalloc-training-log=/tmp/tmpw/log'',
          ''-o'', ''/tmp/tmpw/native'']) = 2"
  by (simp add: build_command_line_def example_env_def command_line_def launcher_prefix_def
      example_runner_def log_path_def output_native_path_def path_join_def is_log_flag_def)

end
